theory Spec2Isabelle
  imports Main
begin

section \<open>Review handlers of the REST backend (handler/review.go)\<close>

text \<open>
  The six handlers of \<^verbatim>\<open>internal/controller/http/v1/handler/review.go\<close> are
  embedded as functions from the collaborators of a run and the incoming request to
  the list of effects the handler performs, in order: calls to the review repository,
  to the object storage, to the error helpers of \<^verbatim>\<open>Handler\<close>, and the
  responses written with \<^verbatim>\<open>ctx.JSON\<close>.
\<close>

subsection \<open>Entities\<close>

text \<open>
  Go's \<^verbatim>\<open>error\<close> interface: nil is \<open>None\<close>; a non-nil error carries its text, or, for
  the two errors of \<^verbatim>\<open>uuid.Parse\<close> that are built from the input, the length or the
  prefix they are built from.
\<close>

datatype error = Err string | invalidLengthError nat | invalid_urn_prefix string

text \<open>\<^verbatim>\<open>entity.Review\<close>, with the fields listed in docs/swagger.yaml.\<close>

record Review =
  ID :: string
  UserID :: string
  BusinessID :: string
  Rating :: int
  Feedback :: string
  Photos :: string
  CreatedAt :: string

text \<open>The zero value of \<^verbatim>\<open>entity.Review\<close> (\<^verbatim>\<open>var req entity.Review\<close>).\<close>

definition zero_Review :: Review where
  "zero_Review =
     \<lparr>ID = '''', UserID = '''', BusinessID = '''', Rating = 0, Feedback = '''',
      Photos = '''', CreatedAt = ''''\<rparr>"

record ReviewList =
  reviews :: "Review list"
  count :: int

text \<open>\<^verbatim>\<open>entity.Id\<close>.\<close>

record Id =
  Id_ID :: string

text \<open>\<^verbatim>\<open>entity.Filter\<close>, \<^verbatim>\<open>entity.OrderBy\<close> and \<^verbatim>\<open>entity.GetListFilter\<close>.\<close>

record Filter =
  Column :: string
  Type :: string
  Value :: string

record OrderBy =
  OrderBy_Column :: string
  Order :: string

record GetListFilter =
  Page :: int
  Limit :: int
  Filters :: "Filter list"
  OrderBy :: "OrderBy list"

definition zero_GetListFilter :: GetListFilter where
  "zero_GetListFilter = \<lparr>Page = 0, Limit = 0, Filters = [], OrderBy = []\<rparr>"

subsection \<open>strconv.Atoi\<close>

text \<open>
  \<^verbatim>\<open>strconv.Atoi\<close> of the Go standard library on a 64-bit platform, base 10.
  It returns a value together with the error; the handler keeps the value and drops
  the error. Strings are byte strings.
\<close>

datatype NumError = ErrSyntax | ErrRange

definition is_digit :: "char \<Rightarrow> bool" where
  "is_digit c = (of_char (CHR ''0'') \<le> (of_char c :: nat) \<and> (of_char c :: nat) \<le> of_char (CHR ''9''))"

definition digit_val :: "char \<Rightarrow> nat" where
  "digit_val c = of_char c - of_char (CHR ''0'')"

definition maxUint64 :: nat where
  "maxUint64 = 2 ^ 64 - 1"

text \<open>
  The loop of \<^verbatim>\<open>ParseUint(s, 10, 64)\<close>. A byte that is no decimal digit (a letter
  has digit value at least 10, the base) ends it with a syntax error and value 0;
  an overflow ends it at once with a range error and the maximal value, before the
  rest of the string is looked at. The accumulator is a \<^verbatim>\<open>uint64\<close>.
\<close>

fun ParseUint_loop :: "nat \<Rightarrow> string \<Rightarrow> nat \<times> NumError option" where
  "ParseUint_loop n [] = (n, None)"
| "ParseUint_loop n (c # cs) =
     (if \<not> is_digit c then (0, Some ErrSyntax)
      else if n \<ge> maxUint64 div 10 + 1 then (maxUint64, Some ErrRange)
      else
        (let n' = (n * 10) mod 2 ^ 64;
             n1 = (n' + digit_val c) mod 2 ^ 64
         in if n1 < n' \<or> n1 > maxUint64 then (maxUint64, Some ErrRange)
            else ParseUint_loop n1 cs))"

definition ParseUint :: "string \<Rightarrow> nat \<times> NumError option" where
  "ParseUint s = (if s = [] then (0, Some ErrSyntax) else ParseUint_loop 0 s)"

text \<open>\<^verbatim>\<open>ParseInt(s, 10, 0)\<close>: sign, magnitude, then the clamp to the \<^verbatim>\<open>int64\<close> range.\<close>

definition ParseInt :: "string \<Rightarrow> int \<times> NumError option" where
  "ParseInt s =
     (if s = [] then (0, Some ErrSyntax)
      else
        (let neg = (hd s = CHR ''-'');
             s1 = (if hd s = CHR ''+'' \<or> hd s = CHR ''-'' then tl s else s);
             (un, err) = ParseUint s1
         in if err \<noteq> None \<and> err \<noteq> Some ErrRange then (0, err)
            else if \<not> neg \<and> un \<ge> 2 ^ 63 then (2 ^ 63 - 1, Some ErrRange)
            else if neg \<and> un > 2 ^ 63 then (- (2 ^ 63), Some ErrRange)
            else (if neg then - int un else int un, None)))"

text \<open>The fast path of \<^verbatim>\<open>Atoi\<close> for strings of 1 to 18 bytes, which cannot overflow.\<close>

fun Atoi_fast_loop :: "nat \<Rightarrow> string \<Rightarrow> nat option" where
  "Atoi_fast_loop n [] = Some n"
| "Atoi_fast_loop n (ch # cs) =
     (if \<not> is_digit ch then None else Atoi_fast_loop (n * 10 + digit_val ch) cs)"

definition Atoi :: "string \<Rightarrow> int \<times> NumError option" where
  "Atoi s =
     (if 0 < length s \<and> length s < 19 then
        (let signed = (hd s = CHR ''-'' \<or> hd s = CHR ''+'');
             s1 = (if signed then tl s else s)
         in if signed \<and> length s1 < 1 then (0, Some ErrSyntax)
            else
              (case Atoi_fast_loop 0 s1 of
                 None \<Rightarrow> (0, Some ErrSyntax)
               | Some n \<Rightarrow> (if hd s = CHR ''-'' then - int n else int n, None)))
      else ParseInt s)"

subsection \<open>Requests, collaborators and effects\<close>

text \<open>
  What a handler reads from \<^verbatim>\<open>*gin.Context\<close>: the path parameters, the query string
  and the request headers as key/value lists in request order, the outcome of decoding
  the JSON body into an \<^verbatim>\<open>entity.Review\<close> (the struct as the decoder left it,
  and its error), and the names of the uploaded multipart files by form field.
\<close>

record Context =
  Params :: "(string \<times> string) list"
  Query :: "(string \<times> string) list"
  Header :: "(string \<times> string) list"
  Body :: "Review \<times> error option"
  Files :: "(string \<times> string) list"

text \<open>\<^verbatim>\<open>ctx.Param\<close>: the value of the first parameter of that name, or the empty string.\<close>

definition Param :: "Context \<Rightarrow> string \<Rightarrow> string" where
  "Param ctx key = (case map_of (Params ctx) key of None \<Rightarrow> '''' | Some v \<Rightarrow> v)"

text \<open>
  \<^verbatim>\<open>ctx.DefaultQuery\<close>: the first value of the key when the key is in the query
  string (also when that value is empty), the default otherwise.
\<close>

definition DefaultQuery :: "Context \<Rightarrow> string \<Rightarrow> string \<Rightarrow> string" where
  "DefaultQuery ctx key defaultValue =
     (case map_of (Query ctx) key of None \<Rightarrow> defaultValue | Some v \<Rightarrow> v)"

text \<open>\<^verbatim>\<open>ctx.GetHeader\<close>: the first value of the header, or the empty string.\<close>

definition GetHeader :: "Context \<Rightarrow> string \<Rightarrow> string" where
  "GetHeader ctx key = (case map_of (Header ctx) key of None \<Rightarrow> '''' | Some v \<Rightarrow> v)"

text \<open>\<^verbatim>\<open>ctx.FormFile\<close>: the uploaded file of that form field (its filename), or an error.\<close>

definition FormFile :: "Context \<Rightarrow> string \<Rightarrow> error + string" where
  "FormFile ctx name =
     (case map_of (Files ctx) name of
        None \<Rightarrow> Inl (Err ''http: no such file'')
      | Some filename \<Rightarrow> Inr filename)"

text \<open>
  The bodies a handler passes to \<^verbatim>\<open>ctx.JSON\<close>: a \<^verbatim>\<open>gin.H\<close> map, a review, a
  review list, an \<^verbatim>\<open>entity.SuccessResponse\<close> with its message, or an error value
  handed to the encoder as it is.
\<close>

datatype body =
    H "(string \<times> string) list"
  | Review_body Review
  | ReviewList_body ReviewList
  | SuccessResponse string
  | Error_body error

text \<open>
  The effects of a handler run, in the order they happen.
  \<^item> \<open>AbortWithError\<close>: gin's \<^verbatim>\<open>BindJSON\<close> (\<^verbatim>\<open>MustBindWith\<close>) aborts the request
    with this status when decoding fails; \<^verbatim>\<open>ShouldBindJSON\<close> does not.
  \<^item> \<open>JSON\<close>: \<^verbatim>\<open>ctx.JSON(status, body)\<close>.
  \<^item> \<open>ReturnError\<close>: \<^verbatim>\<open>h.ReturnError(ctx, code, message, status)\<close>.
  \<^item> \<open>HandleDbError_call\<close>: \<^verbatim>\<open>h.HandleDbError(ctx, err, message)\<close>, called with
    a nil error too.
  \<^item> the calls to \<^verbatim>\<open>h.UseCase.ReviewRepo\<close>, \<^verbatim>\<open>ctx.SaveUploadedFile\<close> and
    \<^verbatim>\<open>h.MinIO.Upload\<close> with their arguments.
\<close>

datatype effect =
    AbortWithError nat error
  | JSON nat body
  | ReturnError string string nat
  | HandleDbError_call "error option" string
  | Create_call Review
  | GetSingle_call Id
  | GetList_call GetListFilter
  | Update_call Review
  | Delete_call Id
  | SaveUploadedFile_call string string
  | Upload_call string string

text \<open>
  The collaborators of a run. Their code is outside review.go, so the handlers take
  them as parameters: the members of \<^verbatim>\<open>Handler\<close> (the review repository, the MinIO
  client, the boolean result of \<^verbatim>\<open>HandleDbError\<close>), the constant
  \<^verbatim>\<open>config.ErrorBadRequest\<close>, the parser \<^verbatim>\<open>uuid.Parse\<close> of the UUID library
  (\<open>google_uuid_Parse\<close> below), and the two calls whose outcome the request does not
  determine: \<^verbatim>\<open>uuid.New().String()\<close>, the UUID drawn in this run, and
  \<^verbatim>\<open>ctx.SaveUploadedFile\<close>. A Go result pair \<^verbatim>\<open>(value, err)\<close> is a pair.
\<close>

record Handler =
  ErrorBadRequest :: string
  HandleDbError :: "error option \<Rightarrow> string \<Rightarrow> bool"
  ReviewRepo_Create :: "Review \<Rightarrow> Review \<times> error option"
  ReviewRepo_GetSingle :: "Id \<Rightarrow> Review \<times> error option"
  ReviewRepo_GetList :: "GetListFilter \<Rightarrow> ReviewList \<times> error option"
  ReviewRepo_Update :: "Review \<Rightarrow> Review \<times> error option"
  ReviewRepo_Delete :: "Id \<Rightarrow> error option"
  MinIO_Upload :: "string \<Rightarrow> string \<Rightarrow> string \<times> error option"
  uuid_Parse :: "string \<Rightarrow> error option"
  uuid_New :: string
  SaveUploadedFile :: "string \<Rightarrow> string \<Rightarrow> error option"

text \<open>
  The recurring step \<^verbatim>\<open>if h.HandleDbError(ctx, err, message) { return }\<close>: the call
  is made, and the rest of the handler runs only when it returned false.
\<close>

definition on_error :: "Handler \<Rightarrow> error option \<Rightarrow> string \<Rightarrow> effect list \<Rightarrow> effect list" where
  "on_error h err message rest =
     HandleDbError_call err message # (if HandleDbError h err message then [] else rest)"

text \<open>\<^verbatim>\<open>ctx.BindJSON\<close>: decodes, and on an error aborts the request with status 400.\<close>

definition BindJSON :: "Context \<Rightarrow> effect list \<times> Review \<times> error option" where
  "BindJSON ctx =
     (case snd (Body ctx) of
        None \<Rightarrow> ([], Body ctx)
      | Some e \<Rightarrow> ([AbortWithError 400 e], Body ctx))"


subsection \<open>The handlers\<close>

definition CreateReview :: "Handler \<Rightarrow> Context \<Rightarrow> effect list" where
  "CreateReview h ctx =
     (let (aborted, req, err) = BindJSON ctx
      in aborted @
         on_error h err ''Error getting review''
           (let UserId = GetHeader ctx ''sub'';
                req = req\<lparr>UserID := UserId\<rparr>;
                (res, err) = ReviewRepo_Create h req
            in Create_call req #
               on_error h err ''Error creating review'' [JSON 200 (Review_body res)]))"

definition GetReview :: "Handler \<Rightarrow> Context \<Rightarrow> effect list" where
  "GetReview h ctx =
     (let req = \<lparr>Id_ID = Param ctx ''id''\<rparr>;
          (review, err) = ReviewRepo_GetSingle h req
      in GetSingle_call req #
         on_error h err ''Error getting review'' [JSON 200 (Review_body review)])"

text \<open>
  The filter \<^verbatim>\<open>GetReviews\<close> builds (lines 86 to 103), before the UUID check: page and
  limit through \<^verbatim>\<open>Atoi\<close> with the error dropped, one filter triple and one order-by
  clause appended to the empty lists of the zero value.
\<close>

definition GetReviews_req :: "Context \<Rightarrow> GetListFilter" where
  "GetReviews_req ctx =
     (let page = DefaultQuery ctx ''page'' ''1'';
          limit = DefaultQuery ctx ''limit'' ''10'';
          businessID = DefaultQuery ctx ''business_id'' '''';
          req = zero_GetListFilter;
          req = req\<lparr>Page := fst (Atoi page)\<rparr>;
          req = req\<lparr>Limit := fst (Atoi limit)\<rparr>;
          req = req\<lparr>Filters := Filters req @
                  [\<lparr>Column = ''business_id'', Type = ''eq'', Value = businessID\<rparr>]\<rparr>;
          req = req\<lparr>OrderBy := OrderBy req @
                  [\<lparr>OrderBy_Column = ''created_at'', Order = ''desc''\<rparr>]\<rparr>
      in req)"

definition GetReviews :: "Handler \<Rightarrow> Context \<Rightarrow> effect list" where
  "GetReviews h ctx =
     (let businessID = DefaultQuery ctx ''business_id'' '''';
          req = GetReviews_req ctx
      in if uuid_Parse h businessID \<noteq> None \<and> businessID \<noteq> '''' then
           [JSON 404 (H [(''Error:'', ''Wrong format type please write UUID'')])]
         else
           (let (reviews, err) = ReviewRepo_GetList h req
            in GetList_call req #
               on_error h err ''Error getting reviews'' [JSON 200 (ReviewList_body reviews)]))"


definition DeleteReview :: "Handler \<Rightarrow> Context \<Rightarrow> effect list" where
  "DeleteReview h ctx =
     (let req = \<lparr>Id_ID = Param ctx ''id''\<rparr>;
          err = ReviewRepo_Delete h req
      in Delete_call req #
         on_error h err ''Error deleting review''
           [JSON 200 (SuccessResponse ''Review deleted successfully'')])"

definition SetReviewImage :: "Handler \<Rightarrow> Context \<Rightarrow> effect list" where
  "SetReviewImage h ctx =
     (let reviewID = Param ctx ''id''
      in if reviewID = '''' then
           [ReturnError (ErrorBadRequest h) ''Review ID is required in path'' 400]
         else
           (case FormFile ctx ''file'' of
              Inl err \<Rightarrow> [ReturnError (ErrorBadRequest h) ''Error getting file'' 400]
            | Inr file_Filename \<Rightarrow>
                (let tempPath = ''/tmp/'' @ file_Filename
                 in SaveUploadedFile_call file_Filename tempPath #
                    (case SaveUploadedFile h file_Filename tempPath of
                       Some err \<Rightarrow> [JSON 500 (Error_body err)]
                     | None \<Rightarrow>
                         (let filename = uuid_New h @ ''-'' @ file_Filename;
                              (minioURL, err) = MinIO_Upload h filename tempPath
                          in Upload_call filename tempPath #
                             on_error h err ''Error uploading review image''
                               (let updateReq = zero_Review\<lparr>ID := reviewID, Photos := minioURL\<rparr>;
                                    (updatedReview, err) = ReviewRepo_Update h updateReq
                                in Update_call updateReq #
                                   on_error h err ''Error updating review image''
                                     [JSON 200 (Review_body updatedReview)]))))))"

subsection \<open>uuid.Parse\<close>

text \<open>
  \<^verbatim>\<open>uuid.Parse\<close> of github.com/google/uuid, of which \<open>GetReviews\<close> keeps the error only.
  By the length of the input: 36 bytes are checked as they are; 45 bytes must start
  with \<^verbatim>\<open>urn:uuid:\<close> (in any case), which is dropped; of 38 bytes the first is dropped
  without a look at it or at the last; 32 bytes must be hexadecimal digits; any other
  length is an \<^verbatim>\<open>invalidLengthError\<close>. What is left after the drop must have hyphens at
  bytes 8, 13, 18 and 23 and hexadecimal digits at the sixteen byte pairs.
\<close>

definition is_hex :: "char \<Rightarrow> bool" where
  "is_hex c = (c \<in> set ''0123456789abcdefABCDEF'')"

definition to_lower :: "char \<Rightarrow> char" where
  "to_lower c =
     (if of_char (CHR ''A'') \<le> (of_char c :: nat) \<and> (of_char c :: nat) \<le> of_char (CHR ''Z'')
      then char_of ((of_char c :: nat) + 32) else c)"

definition google_uuid_Parse :: "string \<Rightarrow> error option" where
  "google_uuid_Parse s =
     (if length s = 32 then
        (if list_all is_hex s then None else Some (Err ''invalid UUID format''))
      else if length s = 36 \<or> length s = 36 + 9 \<or> length s = 36 + 2 then
        (if length s = 36 + 9 \<and> map to_lower (take 9 s) \<noteq> ''urn:uuid:'' then
           Some (invalid_urn_prefix (take 9 s))
         else
           (let s = (if length s = 36 + 9 then drop 9 s
                     else if length s = 36 + 2 then drop 1 s else s)
            in if s ! 8 \<noteq> CHR ''-'' \<or> s ! 13 \<noteq> CHR ''-'' \<or> s ! 18 \<noteq> CHR ''-'' \<or> s ! 23 \<noteq> CHR ''-''
               then Some (Err ''invalid UUID format'')
               else if list_all (\<lambda>x. is_hex (s ! x) \<and> is_hex (s ! (x + 1)))
                         [0, 2, 4, 6, 9, 11, 14, 16, 19, 21, 24, 26, 28, 30, 32, 34]
               then None else Some (Err ''invalid UUID format'')))
      else Some (invalidLengthError (length s)))"

subsection \<open>Vocabulary of the properties\<close>

text \<open>
  A valid UUID in text: the 36-byte form of five groups of hexadecimal digits joined
  by hyphens, that form after \<^verbatim>\<open>urn:uuid:\<close> or inside braces, or 32 hexadecimal digits.
\<close>

definition hyphenated :: "string \<Rightarrow> bool" where
  "hyphenated s =
     (length s = 36 \<and> s ! 8 = CHR ''-'' \<and> s ! 13 = CHR ''-'' \<and> s ! 18 = CHR ''-'' \<and>
      s ! 23 = CHR ''-'' \<and>
      list_all (\<lambda>x. is_hex (s ! x) \<and> is_hex (s ! (x + 1)))
        [0, 2, 4, 6, 9, 11, 14, 16, 19, 21, 24, 26, 28, 30, 32, 34])"

definition is_UUID :: "string \<Rightarrow> bool" where
  "is_UUID s =
     (hyphenated s \<or>
      (length s = 45 \<and> map to_lower (take 9 s) = ''urn:uuid:'' \<and> hyphenated (drop 9 s)) \<or>
      (length s = 38 \<and> hd s = CHR ''{'' \<and> last s = CHR ''}'' \<and> hyphenated (take 36 (drop 1 s))) \<or>
      (length s = 32 \<and> list_all is_hex s))"

text \<open>
  A query value is numeric when it is a non-empty run of decimal digits after an
  optional sign. \<open>leading_digits\<close> is the run of digits a value starts with (after the
  sign), and \<open>decimal n ds\<close> the number it denotes, continuing from \<open>n\<close>.
\<close>

definition strip_sign :: "string \<Rightarrow> string" where
  "strip_sign s = (if s \<noteq> [] \<and> (hd s = CHR ''-'' \<or> hd s = CHR ''+'') then tl s else s)"

definition numeric :: "string \<Rightarrow> bool" where
  "numeric s = (strip_sign s \<noteq> [] \<and> list_all is_digit (strip_sign s))"

definition leading_digits :: "string \<Rightarrow> string" where
  "leading_digits s = takeWhile is_digit (strip_sign s)"

fun decimal :: "nat \<Rightarrow> string \<Rightarrow> nat" where
  "decimal n [] = n"
| "decimal n (c # cs) = decimal (n * 10 + digit_val c) cs"

text \<open>The effects that are calls to the review repository.\<close>

fun ReviewRepo_call :: "effect \<Rightarrow> bool" where
  "ReviewRepo_call (Create_call r) = True"
| "ReviewRepo_call (GetSingle_call i) = True"
| "ReviewRepo_call (GetList_call f) = True"
| "ReviewRepo_call (Update_call r) = True"
| "ReviewRepo_call (Delete_call i) = True"
| "ReviewRepo_call e = False"

fun is_Update_call :: "effect \<Rightarrow> bool" where
  "is_Update_call (Update_call r) = True"
| "is_Update_call e = False"

text \<open>
  Modelled from the spec: \<^verbatim>\<open>ReviewRepo.Update\<close>, whose code is not in review.go.
  The spec (section 4.2) gives its contract: a full-record replace keyed by the
  entity's identifier, failing with \<^verbatim>\<open>NotFound\<close> if the identifier does not exist.
  The stored reviews are a map from identifier to review.
\<close>

definition Update_replace :: "(string \<rightharpoonup> Review) \<Rightarrow> Review \<Rightarrow> (string \<rightharpoonup> Review) \<times> error option" where
  "Update_replace db r =
     (if ID r \<in> dom db then (db(ID r \<mapsto> r), None) else (db, Some (Err ''NotFound'')))"

text \<open>The stored reviews after the \<open>Update\<close> calls of a run, under that contract.\<close>

fun stored_after :: "(string \<rightharpoonup> Review) \<Rightarrow> effect list \<Rightarrow> (string \<rightharpoonup> Review)" where
  "stored_after db [] = db"
| "stored_after db (Update_call r # es) = stored_after (fst (Update_replace db r)) es"
| "stored_after db (e # es) = stored_after db es"

text \<open>
  Modelled from the spec: what \<^verbatim>\<open>ReviewRepo.Update\<close> returns, its code not being in
  review.go. Under the contract of section 4.2 (full-record replace keyed by the
  identifier, \<^verbatim>\<open>NotFound\<close> if the identifier does not exist) the updated review that
  the call returns is the review as stored after the replace.
\<close>

definition Update_answer :: "(string \<rightharpoonup> Review) \<Rightarrow> Review \<Rightarrow> Review \<times> error option" where
  "Update_answer db r =
     (if ID r \<in> dom db then (r, None) else (zero_Review, Some (Err ''NotFound'')))"

text \<open>
  Modelled from the spec: \<^verbatim>\<open>Handler.HandleDbError\<close>, the error mapper of section 4.4,
  whose code is not in review.go. An error of the repository or storage layer is
  translated into the error response and the handler stops there (section 7: the error
  propagates once to the handler, which performs the sole translation to a response, and
  there is no partial success); without an error nothing is written and the handler
  goes on. The model is the boolean the handlers test.
\<close>

definition HandleDbError_spec :: "error option \<Rightarrow> string \<Rightarrow> bool" where
  "HandleDbError_spec err message = (err \<noteq> None)"

text \<open>
  Modelled from the spec: \<^verbatim>\<open>MinIO.Upload\<close>, whose code is not in review.go. Section 4.3:
  \<^verbatim>\<open>Upload(key, localPath) -> url\<close> stores the file under the destination key and
  returns a retrievable URL, and fails with \<^verbatim>\<open>StorageError\<close> when the backend is
  unavailable; section 8: the URL contains the uploaded filename, which the caller put
  into the key. The URL is the address of the storage followed by the key; a storage that
  is unavailable has no address.
\<close>

definition Upload_spec :: "string option \<Rightarrow> string \<Rightarrow> string \<Rightarrow> string \<times> error option" where
  "Upload_spec storage key localPath =
     (case storage of
        None \<Rightarrow> ('''', Some (Err ''StorageError''))
      | Some address \<Rightarrow> (address @ key, None))"

text \<open>A handler whose error mapper, review store and object storage are those of the spec.\<close>

definition with_spec :: "Handler \<Rightarrow> (string \<rightharpoonup> Review) \<Rightarrow> string option \<Rightarrow> Handler" where
  "with_spec h db storage =
     h\<lparr>HandleDbError := HandleDbError_spec,
       ReviewRepo_Update := Update_answer db,
       MinIO_Upload := Upload_spec storage\<rparr>"











subsection \<open>Collaborators and requests of the example runs\<close>

text \<open>
  A handler whose collaborators all succeed: the repository returns what it is given,
  the storage returns a URL ending in the key, and \<^verbatim>\<open>HandleDbError\<close> reports
  exactly the non-nil errors.
\<close>

definition example_Handler :: Handler where
  "example_Handler =
     \<lparr>ErrorBadRequest = ''BAD_REQUEST'',
      HandleDbError = (\<lambda>err message. err \<noteq> None),
      ReviewRepo_Create = (\<lambda>r. (r\<lparr>ID := ''0b0e7a3c-5d1f-4c58-9f0a-2f6c1d9e8b11''\<rparr>, None)),
      ReviewRepo_GetSingle = (\<lambda>i. (zero_Review\<lparr>ID := Id_ID i\<rparr>, None)),
      ReviewRepo_GetList = (\<lambda>f. (\<lparr>reviews = [], count = 0\<rparr>, None)),
      ReviewRepo_Update = (\<lambda>r. (r, None)),
      ReviewRepo_Delete = (\<lambda>i. None),
      MinIO_Upload = (\<lambda>key path. (''http://minio:9000/reviews/'' @ key, None)),
      uuid_Parse = google_uuid_Parse,
      uuid_New = ''123e4567-e89b-12d3-a456-426614174000'',
      SaveUploadedFile = (\<lambda>filename dst. None)\<rparr>"

text \<open>The same handler on a machine where the temporary file cannot be written.\<close>

definition readonly_tmp_Handler :: Handler where
  "readonly_tmp_Handler =
     example_Handler\<lparr>SaveUploadedFile :=
       (\<lambda>filename dst. Some (Err ''open /tmp/cat.png: read-only file system''))\<rparr>"

text \<open>A request without parameters, query, headers or files, and a body that decoded.\<close>

definition empty_Context :: Context where
  "empty_Context =
     \<lparr>Params = [], Query = [], Header = [], Body = (zero_Review, None), Files = []\<rparr>"

text \<open>\<^verbatim>\<open>GET /review/list?business_id=not-a-uuid\<close>.\<close>

definition list_bad_business :: Context where
  "list_bad_business = empty_Context\<lparr>Query := [(''business_id'', ''not-a-uuid'')]\<rparr>"

text \<open>\<^verbatim>\<open>GET /review/list?page=abc&limit=1x\<close>.\<close>

definition list_bad_page :: Context where
  "list_bad_page = empty_Context\<lparr>Query := [(''page'', ''abc''), (''limit'', ''1x'')]\<rparr>"

text \<open>\<^verbatim>\<open>GET /review/list?page=99999999999999999999x\<close>: twenty digits, then a letter.\<close>

definition list_long_page :: Context where
  "list_long_page = empty_Context\<lparr>Query := [(''page'', ''99999999999999999999x'')]\<rparr>"

text \<open>\<^verbatim>\<open>POST /review\<close> from user \<open>u-1\<close>, the body naming another user.\<close>

definition create_request :: Context where
  "create_request =
     empty_Context
       \<lparr>Header := [(''sub'', ''u-1'')],
        Body := (zero_Review\<lparr>UserID := ''u-2'', BusinessID := ''b-1'', Rating := 5,
                   Feedback := ''good''\<rparr>, None)\<rparr>"


text \<open>\<^verbatim>\<open>POST /review/r-1/image\<close> with the file \<open>cat.png\<close>, and the same with \<open>dog.png\<close>.\<close>

definition image_request :: Context where
  "image_request =
     empty_Context\<lparr>Params := [(''id'', ''r-1'')], Files := [(''file'', ''cat.png'')]\<rparr>"

definition second_image_request :: Context where
  "second_image_request =
     empty_Context\<lparr>Params := [(''id'', ''r-1'')], Files := [(''file'', ''dog.png'')]\<rparr>"

text \<open>A stored review \<open>r-1\<close> with all its fields set.\<close>

definition stored_review :: Review where
  "stored_review =
     \<lparr>ID = ''r-1'', UserID = ''u-1'', BusinessID = ''b-1'', Rating = 4, Feedback = ''fine'',
      Photos = ''http://minio:9000/reviews/old.png'', CreatedAt = ''2024-01-01T00:00:00Z''\<rparr>"

text \<open>\<^verbatim>\<open>POST /review/not a uuid!/image\<close>: the same upload under an identifier that is no UUID.\<close>

definition odd_id_image_request :: Context where
  "odd_id_image_request = image_request\<lparr>Params := [(''id'', ''not a uuid!'')]\<rparr>"

text \<open>
  \<^verbatim>\<open>GET /review/list?business_id=X123e4567-e89b-12d3-a456-426614174000Y\<close>: 38 bytes,
  a UUID between two letters.
\<close>

definition list_padded_business :: Context where
  "list_padded_business =
     empty_Context\<lparr>Query := [(''business_id'', ''X123e4567-e89b-12d3-a456-426614174000Y'')]\<rparr>"





text \<open>The run of the second upload draws a UUID of its own.\<close>

definition second_Handler :: Handler where
  "second_Handler = example_Handler\<lparr>uuid_New := ''9c5b94b1-35ad-49bb-b118-8e8fc24abf80''\<rparr>"

subsection \<open>Facts about Atoi\<close>

lemma Atoi_fast_loop_None: "Atoi_fast_loop n cs = None \<longleftrightarrow> \<not> list_all is_digit cs"
  by (induction cs arbitrary: n) auto

lemma decimal_ge: "n \<le> decimal n ds"
proof (induction ds arbitrary: n)
  case Nil
  show ?case by simp
next
  case (Cons d ds)
  have "n \<le> n * 10 + digit_val d" by simp
  also have "\<dots> \<le> decimal (n * 10 + digit_val d) ds" by (rule Cons.IH)
  finally show ?case by simp
qed

lemma ParseUint_loop_syntax:
  "list_all is_digit ds \<Longrightarrow> \<not> is_digit c \<Longrightarrow> decimal n ds < 2 ^ 64 \<Longrightarrow>
   ParseUint_loop n (ds @ c # rest) = (0, Some ErrSyntax)"
proof (induction ds arbitrary: n)
  case Nil
  then show ?case by simp
next
  case (Cons d ds)
  let ?m = "n * 10 + digit_val d"
  have dec: "decimal ?m ds < 2 ^ 64" using Cons.prems(3) by simp
  have "?m \<le> decimal ?m ds" by (rule decimal_ge)
  with dec have m: "?m < 2 ^ 64" by simp
  then have n: "\<not> n \<ge> maxUint64 div 10 + 1" by (simp add: maxUint64_def)
  have n10: "(n * 10) mod 2 ^ 64 = n * 10" using m by simp
  have m64: "?m mod 2 ^ 64 = ?m" using m by simp
  have "ParseUint_loop n ((d # ds) @ c # rest) = ParseUint_loop ?m (ds @ c # rest)"
    using Cons.prems(1) n n10 m64 m by (simp add: Let_def maxUint64_def)
  also have "\<dots> = (0, Some ErrSyntax)"
    using Cons.prems(1,2) dec by (intro Cons.IH) simp_all
  finally show ?case .
qed

lemma split_at_non_digit:
  assumes "\<not> list_all is_digit s"
  shows "\<exists>c rest. s = takeWhile is_digit s @ c # rest \<and> \<not> is_digit c"
proof -
  from assms have "dropWhile is_digit s \<noteq> []"
    by (simp add: list_all_iff dropWhile_eq_Nil_conv)
  then obtain c rest where d: "dropWhile is_digit s = c # rest"
    by (cases "dropWhile is_digit s") auto
  then have "\<not> is_digit c" using hd_dropWhile [of is_digit s] by simp
  moreover have "s = takeWhile is_digit s @ c # rest"
    using takeWhile_dropWhile_id [of is_digit s] d by simp
  ultimately show ?thesis by blast
qed

lemma ParseInt_syntax:
  assumes "v \<noteq> []" and "strip_sign v = [] \<or> ParseUint_loop 0 (strip_sign v) = (0, Some ErrSyntax)"
  shows "ParseInt v = (0, Some ErrSyntax)"
proof -
  have s1: "(if hd v = CHR ''+'' \<or> hd v = CHR ''-'' then tl v else v) = strip_sign v"
    using assms(1) by (auto simp: strip_sign_def)
  have "ParseUint (strip_sign v) = (0, Some ErrSyntax)"
    using assms(2) by (auto simp: ParseUint_def)
  then show ?thesis
    using assms(1) by (simp add: ParseInt_def s1 del: One_nat_def)
qed

lemma Atoi_fast_syntax:
  assumes "v \<noteq> []" and "strip_sign v = [] \<or> Atoi_fast_loop 0 (strip_sign v) = None"
  shows "(let signed = (hd v = CHR ''-'' \<or> hd v = CHR ''+'');
             s1 = (if signed then tl v else v)
         in if signed \<and> length s1 < 1 then (0, Some ErrSyntax)
            else
              (case Atoi_fast_loop 0 s1 of
                 None \<Rightarrow> (0, Some ErrSyntax)
               | Some n \<Rightarrow> (if hd v = CHR ''-'' then - int n else int n, None))) = (0, Some ErrSyntax)"
proof (cases "hd v = CHR ''-'' \<or> hd v = CHR ''+''")
  case True
  then have "strip_sign v = tl v" using assms(1) by (simp add: strip_sign_def)
  with assms(2) True show ?thesis by (auto simp: Let_def)
next
  case False
  then have "strip_sign v = v" by (simp add: strip_sign_def)
  with assms False show ?thesis by (auto simp: Let_def)
qed

lemma Atoi_non_numeric:
  assumes nn: "\<not> numeric v" and small: "decimal 0 (leading_digits v) < 2 ^ 64"
  shows "Atoi v = (0, Some ErrSyntax)"
proof (cases "v = []")
  case True
  then show ?thesis by (simp add: Atoi_def ParseInt_def)
next
  case False
  let ?b = "strip_sign v"
  have both: "?b = [] \<or> (ParseUint_loop 0 ?b = (0, Some ErrSyntax) \<and> Atoi_fast_loop 0 ?b = None)"
  proof (cases "?b = []")
    case True
    then show ?thesis by simp
  next
    case nonempty: False
    with nn have nd: "\<not> list_all is_digit ?b" by (simp add: numeric_def)
    then obtain c rest where b: "?b = takeWhile is_digit ?b @ c # rest" and c: "\<not> is_digit c"
      using split_at_non_digit by blast
    have digs: "list_all is_digit (takeWhile is_digit ?b)"
      by (auto simp: list_all_iff dest: set_takeWhileD)
    have "decimal 0 (takeWhile is_digit ?b) < 2 ^ 64"
      using small by (simp add: leading_digits_def)
    with digs c have "ParseUint_loop 0 (takeWhile is_digit ?b @ c # rest) = (0, Some ErrSyntax)"
      by (rule ParseUint_loop_syntax)
    with b have "ParseUint_loop 0 ?b = (0, Some ErrSyntax)" by simp
    moreover have "Atoi_fast_loop 0 ?b = None" using nd by (simp add: Atoi_fast_loop_None)
    ultimately show ?thesis by simp
  qed
  from both have p: "?b = [] \<or> ParseUint_loop 0 ?b = (0, Some ErrSyntax)" by auto
  from both have f: "?b = [] \<or> Atoi_fast_loop 0 ?b = None" by auto
  have slow: "ParseInt v = (0, Some ErrSyntax)"
    using False p by (rule ParseInt_syntax)
  have fast: "(let signed = (hd v = CHR ''-'' \<or> hd v = CHR ''+'');
             s1 = (if signed then tl v else v)
         in if signed \<and> length s1 < 1 then (0, Some ErrSyntax)
            else
              (case Atoi_fast_loop 0 s1 of
                 None \<Rightarrow> (0, Some ErrSyntax)
               | Some n \<Rightarrow> (if hd v = CHR ''-'' then - int n else int n, None))) = (0, Some ErrSyntax)"
    using False f by (rule Atoi_fast_syntax)
  show ?thesis unfolding Atoi_def fast slow by simp
qed

lemma Atoi_default_page: "Atoi ''1'' = (1, None)"
  by (simp add: Atoi_def is_digit_def digit_val_def)

lemma Atoi_default_limit: "Atoi ''10'' = (10, None)"
  by (simp add: Atoi_def is_digit_def digit_val_def)

lemma Page_GetReviews_req: "Page (GetReviews_req ctx) = fst (Atoi (DefaultQuery ctx ''page'' ''1''))"
  by (simp add: GetReviews_req_def Let_def)

lemma Limit_GetReviews_req: "Limit (GetReviews_req ctx) = fst (Atoi (DefaultQuery ctx ''limit'' ''10''))"
  by (simp add: GetReviews_req_def Let_def)

subsection \<open>Facts about the handlers and the example runs\<close>

lemma SetReviewImage_success:
  assumes "JSON 200 b \<in> set (SetReviewImage h ctx)"
  shows "\<exists>name. Param ctx ''id'' \<noteq> '''' \<and> FormFile ctx ''file'' = Inr name \<and>
           SaveUploadedFile h name (''/tmp/'' @ name) = None \<and>
           SetReviewImage h ctx =
             [SaveUploadedFile_call name (''/tmp/'' @ name),
              Upload_call (uuid_New h @ ''-'' @ name) (''/tmp/'' @ name),
              HandleDbError_call (snd (MinIO_Upload h (uuid_New h @ ''-'' @ name) (''/tmp/'' @ name)))
                ''Error uploading review image'',
              Update_call (zero_Review\<lparr>ID := Param ctx ''id'',
                 Photos := fst (MinIO_Upload h (uuid_New h @ ''-'' @ name) (''/tmp/'' @ name))\<rparr>),
              HandleDbError_call
                (snd (ReviewRepo_Update h (zero_Review\<lparr>ID := Param ctx ''id'',
                   Photos := fst (MinIO_Upload h (uuid_New h @ ''-'' @ name) (''/tmp/'' @ name))\<rparr>)))
                ''Error updating review image'',
              JSON 200 b] \<and>
           b = Review_body (fst (ReviewRepo_Update h (zero_Review\<lparr>ID := Param ctx ''id'',
                   Photos := fst (MinIO_Upload h (uuid_New h @ ''-'' @ name) (''/tmp/'' @ name))\<rparr>)))"
  using assms
  by (auto simp: SetReviewImage_def on_error_def Let_def
           split: if_splits sum.splits option.splits prod.splits)

lemma Update_call_in_SetReviewImage:
  assumes "Update_call r \<in> set (SetReviewImage h ctx)"
  shows "\<exists>name. Param ctx ''id'' \<noteq> '''' \<and> FormFile ctx ''file'' = Inr name \<and>
           r = zero_Review\<lparr>ID := Param ctx ''id'',
                 Photos := fst (MinIO_Upload h (uuid_New h @ ''-'' @ name) (''/tmp/'' @ name))\<rparr> \<and>
           (\<exists>rest. SetReviewImage h ctx =
             [SaveUploadedFile_call name (''/tmp/'' @ name),
              Upload_call (uuid_New h @ ''-'' @ name) (''/tmp/'' @ name),
              HandleDbError_call (snd (MinIO_Upload h (uuid_New h @ ''-'' @ name) (''/tmp/'' @ name)))
                ''Error uploading review image'',
              Update_call r] @ rest \<and> (\<forall>x \<in> set rest. \<not> ReviewRepo_call x))"
  using assms
  by (auto simp: SetReviewImage_def on_error_def Let_def
           split: if_splits sum.splits option.splits prod.splits)

lemma stored_after_SetReviewImage:
  assumes "Update_call r \<in> set (SetReviewImage h ctx)" and "db (ID r) = Some old"
  shows "stored_after db (SetReviewImage h ctx) = db(ID r \<mapsto> r)"
proof -
  from Update_call_in_SetReviewImage [OF assms(1)] obtain name rest where
    run: "SetReviewImage h ctx =
             [SaveUploadedFile_call name (''/tmp/'' @ name),
              Upload_call (uuid_New h @ ''-'' @ name) (''/tmp/'' @ name),
              HandleDbError_call (snd (MinIO_Upload h (uuid_New h @ ''-'' @ name) (''/tmp/'' @ name)))
                ''Error uploading review image'',
              Update_call r] @ rest"
    and rest: "\<forall>x \<in> set rest. \<not> ReviewRepo_call x"
    by blast
  have keep: "stored_after m rest = m" for m
    using rest by (induction m rest rule: stored_after.induct) auto
  have "ID r \<in> dom db" using assms(2) by auto
  then show ?thesis by (simp add: run keep Update_replace_def)
qed

lemma example_image_run:
  "SetReviewImage example_Handler image_request =
     [SaveUploadedFile_call ''cat.png'' ''/tmp/cat.png'',
      Upload_call ''123e4567-e89b-12d3-a456-426614174000-cat.png'' ''/tmp/cat.png'',
      HandleDbError_call None ''Error uploading review image'',
      Update_call (zero_Review\<lparr>ID := ''r-1'',
        Photos := ''http://minio:9000/reviews/123e4567-e89b-12d3-a456-426614174000-cat.png''\<rparr>),
      HandleDbError_call None ''Error updating review image'',
      JSON 200 (Review_body (zero_Review\<lparr>ID := ''r-1'',
        Photos := ''http://minio:9000/reviews/123e4567-e89b-12d3-a456-426614174000-cat.png''\<rparr>))]"
  by (simp add: SetReviewImage_def Param_def FormFile_def image_request_def empty_Context_def
        example_Handler_def on_error_def Let_def)

lemma example_odd_id_image_run:
  "SetReviewImage example_Handler odd_id_image_request =
     [SaveUploadedFile_call ''cat.png'' ''/tmp/cat.png'',
      Upload_call ''123e4567-e89b-12d3-a456-426614174000-cat.png'' ''/tmp/cat.png'',
      HandleDbError_call None ''Error uploading review image'',
      Update_call (zero_Review\<lparr>ID := ''not a uuid!'',
        Photos := ''http://minio:9000/reviews/123e4567-e89b-12d3-a456-426614174000-cat.png''\<rparr>),
      HandleDbError_call None ''Error updating review image'',
      JSON 200 (Review_body (zero_Review\<lparr>ID := ''not a uuid!'',
        Photos := ''http://minio:9000/reviews/123e4567-e89b-12d3-a456-426614174000-cat.png''\<rparr>))]"
  by (simp add: SetReviewImage_def Param_def FormFile_def odd_id_image_request_def
        image_request_def empty_Context_def example_Handler_def on_error_def Let_def)

subsection \<open>Facts about uuid.Parse\<close>

lemma Parse_32: "length s = 32 \<Longrightarrow> (google_uuid_Parse s = None) = list_all is_hex s"
  by (simp add: google_uuid_Parse_def)

lemma Parse_36: "length s = 36 \<Longrightarrow> (google_uuid_Parse s = None) = hyphenated s"
  by (auto simp add: google_uuid_Parse_def hyphenated_def Let_def)

lemma Parse_45:
  "length s = 45 \<Longrightarrow>
   (google_uuid_Parse s = None) =
     (map to_lower (take 9 s) = ''urn:uuid:'' \<and> hyphenated (drop 9 s))"
  by (auto simp add: google_uuid_Parse_def hyphenated_def Let_def)

lemma Parse_38:
  "length s = 38 \<Longrightarrow> (google_uuid_Parse s = None) = hyphenated (take 36 (drop 1 s))"
  by (auto simp add: google_uuid_Parse_def hyphenated_def Let_def numeral_3_eq_3 [symmetric]
        numeral_2_eq_2 [symmetric])

lemma Parse_other:
  "length s \<noteq> 32 \<Longrightarrow> length s \<noteq> 36 \<Longrightarrow> length s \<noteq> 45 \<Longrightarrow> length s \<noteq> 38 \<Longrightarrow>
   google_uuid_Parse s \<noteq> None"
  by (simp add: google_uuid_Parse_def)

lemma Parse_rejects:
  assumes "\<not> is_UUID b" and "\<not> (length b = 38 \<and> hyphenated (take 36 (drop 1 b)))"
  shows "google_uuid_Parse b \<noteq> None"
proof -
  consider "length b = 32" | "length b = 36" | "length b = 45" | "length b = 38"
    | "length b \<noteq> 32" "length b \<noteq> 36" "length b \<noteq> 45" "length b \<noteq> 38"
    by blast
  then show ?thesis
  proof cases
    case 1
    with assms(1) show ?thesis by (simp add: Parse_32 is_UUID_def)
  next
    case 2
    with assms(1) show ?thesis by (simp add: Parse_36 is_UUID_def)
  next
    case 3
    with assms(1) show ?thesis by (simp add: Parse_45 is_UUID_def)
  next
    case 4
    with assms(2) show ?thesis by (simp add: Parse_38)
  next
    case 5
    then show ?thesis by (rule Parse_other)
  qed
qed

subsection \<open>Facts about the collaborators of the spec\<close>

lemma with_spec_fields:
  "HandleDbError (with_spec h db storage) = HandleDbError_spec"
  "ReviewRepo_Update (with_spec h db storage) = Update_answer db"
  "MinIO_Upload (with_spec h db storage) = Upload_spec storage"
  "uuid_New (with_spec h db storage) = uuid_New h"
  "SaveUploadedFile (with_spec h db storage) = SaveUploadedFile h"
  "ErrorBadRequest (with_spec h db storage) = ErrorBadRequest h"
  by (simp_all add: with_spec_def)

lemma spec_first_image_run:
  "SetReviewImage (with_spec example_Handler [''r-1'' \<mapsto> stored_review] (Some ''http://minio:9000/reviews/''))
     image_request =
     [SaveUploadedFile_call ''cat.png'' ''/tmp/cat.png'',
      Upload_call ''123e4567-e89b-12d3-a456-426614174000-cat.png'' ''/tmp/cat.png'',
      HandleDbError_call None ''Error uploading review image'',
      Update_call (zero_Review\<lparr>ID := ''r-1'',
        Photos := ''http://minio:9000/reviews/123e4567-e89b-12d3-a456-426614174000-cat.png''\<rparr>),
      HandleDbError_call None ''Error updating review image'',
      JSON 200 (Review_body (zero_Review\<lparr>ID := ''r-1'',
        Photos := ''http://minio:9000/reviews/123e4567-e89b-12d3-a456-426614174000-cat.png''\<rparr>))]"
  by (simp add: SetReviewImage_def Param_def FormFile_def image_request_def empty_Context_def
        with_spec_def example_Handler_def on_error_def Let_def HandleDbError_spec_def
        Upload_spec_def Update_answer_def)

lemma spec_stored_after_first:
  "stored_after [''r-1'' \<mapsto> stored_review]
     (SetReviewImage (with_spec example_Handler [''r-1'' \<mapsto> stored_review]
        (Some ''http://minio:9000/reviews/'')) image_request) =
     [''r-1'' \<mapsto> zero_Review\<lparr>ID := ''r-1'',
        Photos := ''http://minio:9000/reviews/123e4567-e89b-12d3-a456-426614174000-cat.png''\<rparr>]"
  by (simp add: spec_first_image_run Update_replace_def zero_Review_def)

lemma spec_second_image_run:
  "SetReviewImage
     (with_spec second_Handler
        [''r-1'' \<mapsto> zero_Review\<lparr>ID := ''r-1'',
           Photos := ''http://minio:9000/reviews/123e4567-e89b-12d3-a456-426614174000-cat.png''\<rparr>]
        (Some ''http://minio:9000/reviews/''))
     second_image_request =
     [SaveUploadedFile_call ''dog.png'' ''/tmp/dog.png'',
      Upload_call ''9c5b94b1-35ad-49bb-b118-8e8fc24abf80-dog.png'' ''/tmp/dog.png'',
      HandleDbError_call None ''Error uploading review image'',
      Update_call (zero_Review\<lparr>ID := ''r-1'',
        Photos := ''http://minio:9000/reviews/9c5b94b1-35ad-49bb-b118-8e8fc24abf80-dog.png''\<rparr>),
      HandleDbError_call None ''Error updating review image'',
      JSON 200 (Review_body (zero_Review\<lparr>ID := ''r-1'',
        Photos := ''http://minio:9000/reviews/9c5b94b1-35ad-49bb-b118-8e8fc24abf80-dog.png''\<rparr>))]"
  by (simp add: SetReviewImage_def Param_def FormFile_def second_image_request_def empty_Context_def
        with_spec_def second_Handler_def example_Handler_def on_error_def Let_def
        HandleDbError_spec_def Upload_spec_def Update_answer_def zero_Review_def)

subsection \<open>The claims\<close>

text \<open>
  Claim C1 says that every non-empty \<^verbatim>\<open>business_id\<close> that is not a valid UUID is
  answered with 404. The value \<^verbatim>\<open>X123e4567-e89b-12d3-a456-426614174000Y\<close> is not
  empty and no UUID, but it has 38 bytes, of which \<^verbatim>\<open>uuid.Parse\<close> drops the first
  unseen and never reads the last: the parser returns no error, and \<open>GetReviews\<close> goes
  on to \<^verbatim>\<open>GetList\<close> and answers 200.
\<close>

theorem GetReviews_padded_business_id_counterexample:
  "DefaultQuery list_padded_business ''business_id'' '''' = ''X123e4567-e89b-12d3-a456-426614174000Y''
   \<and> ''X123e4567-e89b-12d3-a456-426614174000Y'' \<noteq> ''''
   \<and> \<not> is_UUID ''X123e4567-e89b-12d3-a456-426614174000Y''
   \<and> uuid_Parse example_Handler = google_uuid_Parse
   \<and> GetReviews example_Handler list_padded_business =
       [GetList_call
          \<lparr>Page = 1, Limit = 10,
           Filters = [\<lparr>Column = ''business_id'', Type = ''eq'',
                       Value = ''X123e4567-e89b-12d3-a456-426614174000Y''\<rparr>],
           OrderBy = [\<lparr>OrderBy_Column = ''created_at'', Order = ''desc''\<rparr>]\<rparr>,
        HandleDbError_call None ''Error getting reviews'',
        JSON 200 (ReviewList_body \<lparr>reviews = [], count = 0\<rparr>)]"
proof -
  have q: "DefaultQuery list_padded_business ''business_id'' '''' = ''X123e4567-e89b-12d3-a456-426614174000Y''"
    and p: "DefaultQuery list_padded_business ''page'' ''1'' = ''1''"
    and l: "DefaultQuery list_padded_business ''limit'' ''10'' = ''10''"
    by (simp_all add: DefaultQuery_def list_padded_business_def empty_Context_def)
  have n: "\<not> is_UUID ''X123e4567-e89b-12d3-a456-426614174000Y''"
    by (simp add: is_UUID_def hyphenated_def)
  have a: "google_uuid_Parse ''X123e4567-e89b-12d3-a456-426614174000Y'' = None"
    by (simp add: google_uuid_Parse_def is_hex_def)
  have u: "uuid_Parse example_Handler = google_uuid_Parse"
    by (simp add: example_Handler_def)
  have r: "GetReviews_req list_padded_business =
          \<lparr>Page = 1, Limit = 10,
           Filters = [\<lparr>Column = ''business_id'', Type = ''eq'',
                       Value = ''X123e4567-e89b-12d3-a456-426614174000Y''\<rparr>],
           OrderBy = [\<lparr>OrderBy_Column = ''created_at'', Order = ''desc''\<rparr>]\<rparr>"
    by (simp add: GetReviews_req_def q p l Atoi_default_page Atoi_default_limit
          zero_GetListFilter_def)
  have g: "GetReviews example_Handler list_padded_business =
       [GetList_call (GetReviews_req list_padded_business),
        HandleDbError_call None ''Error getting reviews'',
        JSON 200 (ReviewList_body \<lparr>reviews = [], count = 0\<rparr>)]"
    by (simp add: GetReviews_def q a on_error_def example_Handler_def)
  show ?thesis using q n u g r by simp
qed

text \<open>
  Claim C1, amended. For every \<^verbatim>\<open>GET /review/list\<close> request whose \<^verbatim>\<open>business_id\<close> is
  non-empty, is not a valid UUID, and is not a 38-byte value whose bytes 2 to 37 are a
  UUID in the 36-byte form, \<open>GetReviews\<close> (with \<^verbatim>\<open>uuid.Parse\<close> as its parser) does
  exactly one thing: it answers with status 404 and the body
  \<^verbatim>\<open>{"Error:": "Wrong format type please write UUID"}\<close>. The repository's
  \<^verbatim>\<open>GetList\<close> is not called.
\<close>

theorem GetReviews_malformed_business_id:
  assumes "DefaultQuery ctx ''business_id'' '''' = b"
    and "b \<noteq> ''''"
    and "\<not> is_UUID b"
    and "\<not> (length b = 38 \<and> hyphenated (take 36 (drop 1 b)))"
  shows "GetReviews (h\<lparr>uuid_Parse := google_uuid_Parse\<rparr>) ctx =
           [JSON 404 (H [(''Error:'', ''Wrong format type please write UUID'')])]
         \<and> (\<forall>f. GetList_call f \<notin> set (GetReviews (h\<lparr>uuid_Parse := google_uuid_Parse\<rparr>) ctx))"
proof -
  from assms(3,4) have "google_uuid_Parse b \<noteq> None" by (rule Parse_rejects)
  with assms(1,2) show ?thesis by (simp add: GetReviews_def Let_def)
qed

text \<open>
  The request \<^verbatim>\<open>GET /review/list?business_id=not-a-uuid\<close> satisfies the hypotheses of
  the amended C1 and is answered that way.
\<close>

theorem GetReviews_malformed_business_id_witness:
  "DefaultQuery list_bad_business ''business_id'' '''' = ''not-a-uuid''
   \<and> ''not-a-uuid'' \<noteq> ''''
   \<and> \<not> is_UUID ''not-a-uuid''
   \<and> length ''not-a-uuid'' \<noteq> 38
   \<and> GetReviews (example_Handler\<lparr>uuid_Parse := google_uuid_Parse\<rparr>) list_bad_business =
        [JSON 404 (H [(''Error:'', ''Wrong format type please write UUID'')])]
   \<and> (\<forall>f. GetList_call f \<notin>
          set (GetReviews (example_Handler\<lparr>uuid_Parse := google_uuid_Parse\<rparr>) list_bad_business))"
proof -
  have q: "DefaultQuery list_bad_business ''business_id'' '''' = ''not-a-uuid''"
    by (simp add: DefaultQuery_def list_bad_business_def empty_Context_def)
  have e: "''not-a-uuid'' \<noteq> ''''" by simp
  have n: "\<not> is_UUID ''not-a-uuid''" by (simp add: is_UUID_def hyphenated_def)
  have l: "length ''not-a-uuid'' \<noteq> 38" by simp
  then have l': "\<not> (length ''not-a-uuid'' = 38 \<and> hyphenated (take 36 (drop 1 ''not-a-uuid'')))"
    by blast
  from GetReviews_malformed_business_id [OF q e n l', of example_Handler] q e n l
  show ?thesis by blast
qed


text \<open>
  Claim C3 says that a non-numeric \<^verbatim>\<open>page\<close> or \<^verbatim>\<open>limit\<close> always becomes 0. The
  value \<^verbatim>\<open>99999999999999999999x\<close> is not numeric, but \<^verbatim>\<open>Atoi\<close> meets the overflow at
  the twentieth digit before it reaches the letter, and returns the largest
  \<^verbatim>\<open>int64\<close> with a range error; the handler drops the error and keeps the value.
\<close>

theorem GetReviews_page_counterexample:
  "DefaultQuery list_long_page ''page'' ''1'' = ''99999999999999999999x''
   \<and> \<not> numeric ''99999999999999999999x''
   \<and> Page (GetReviews_req list_long_page) = 9223372036854775807"
proof -
  have q: "DefaultQuery list_long_page ''page'' ''1'' = ''99999999999999999999x''"
    by (simp add: DefaultQuery_def list_long_page_def empty_Context_def)
  have n: "\<not> numeric ''99999999999999999999x''"
    by (simp add: numeric_def strip_sign_def is_digit_def)
  have a: "Atoi ''99999999999999999999x'' = (9223372036854775807, Some ErrRange)"
    by (simp add: Atoi_def ParseInt_def ParseUint_def is_digit_def digit_val_def maxUint64_def)
  show ?thesis using q n a by (simp add: Page_GetReviews_req)
qed

text \<open>
  Claim C3, amended. In \<open>GetReviews\<close>, an absent \<^verbatim>\<open>page\<close> gives \<open>Page = 1\<close> and an absent
  \<^verbatim>\<open>limit\<close> gives \<open>Limit = 10\<close>. A \<^verbatim>\<open>page\<close> or \<^verbatim>\<open>limit\<close> that is present but not
  numeric gives the field 0, provided the digits it starts with (after an optional sign)
  denote a number below \<open>2 ^ 64\<close>. The request is not rejected on account of either
  parameter: whenever the \<^verbatim>\<open>business_id\<close> check passes, the first effect of the
  handler is the call of \<^verbatim>\<open>GetList\<close> with the filter so built.
\<close>

theorem GetReviews_page_limit:
  "(map_of (Query ctx) ''page'' = None \<longrightarrow> Page (GetReviews_req ctx) = 1) \<and>
   (map_of (Query ctx) ''limit'' = None \<longrightarrow> Limit (GetReviews_req ctx) = 10) \<and>
   (\<forall>v. map_of (Query ctx) ''page'' = Some v \<and> \<not> numeric v \<and>
        decimal 0 (leading_digits v) < 2 ^ 64 \<longrightarrow> Page (GetReviews_req ctx) = 0) \<and>
   (\<forall>v. map_of (Query ctx) ''limit'' = Some v \<and> \<not> numeric v \<and>
        decimal 0 (leading_digits v) < 2 ^ 64 \<longrightarrow> Limit (GetReviews_req ctx) = 0) \<and>
   (DefaultQuery ctx ''business_id'' '''' = '''' \<or>
    uuid_Parse h (DefaultQuery ctx ''business_id'' '''') = None \<longrightarrow>
      take 1 (GetReviews h ctx) = [GetList_call (GetReviews_req ctx)])"
proof (intro conjI allI impI)
  assume "map_of (Query ctx) ''page'' = None"
  then show "Page (GetReviews_req ctx) = 1"
    by (simp add: Page_GetReviews_req DefaultQuery_def Atoi_default_page)
next
  assume "map_of (Query ctx) ''limit'' = None"
  then show "Limit (GetReviews_req ctx) = 10"
    by (simp add: Limit_GetReviews_req DefaultQuery_def Atoi_default_limit)
next
  fix v
  assume a: "map_of (Query ctx) ''page'' = Some v \<and> \<not> numeric v \<and>
        decimal 0 (leading_digits v) < 2 ^ 64"
  then have "Atoi v = (0, Some ErrSyntax)" by (intro Atoi_non_numeric) simp_all
  with a show "Page (GetReviews_req ctx) = 0"
    by (simp add: Page_GetReviews_req DefaultQuery_def)
next
  fix v
  assume a: "map_of (Query ctx) ''limit'' = Some v \<and> \<not> numeric v \<and>
        decimal 0 (leading_digits v) < 2 ^ 64"
  then have "Atoi v = (0, Some ErrSyntax)" by (intro Atoi_non_numeric) simp_all
  with a show "Limit (GetReviews_req ctx) = 0"
    by (simp add: Limit_GetReviews_req DefaultQuery_def)
next
  assume "DefaultQuery ctx ''business_id'' '''' = '''' \<or>
    uuid_Parse h (DefaultQuery ctx ''business_id'' '''') = None"
  then show "take 1 (GetReviews h ctx) = [GetList_call (GetReviews_req ctx)]"
    by (auto simp: GetReviews_def Let_def split: prod.splits)
qed

text \<open>
  The defaults on a request without query parameters, and the zeroes on
  \<^verbatim>\<open>GET /review/list?page=abc&limit=1x\<close>.
\<close>

theorem GetReviews_page_limit_witness:
  "map_of (Query empty_Context) ''page'' = None \<and> Page (GetReviews_req empty_Context) = 1 \<and>
   map_of (Query empty_Context) ''limit'' = None \<and> Limit (GetReviews_req empty_Context) = 10 \<and>
   map_of (Query list_bad_page) ''page'' = Some ''abc'' \<and> \<not> numeric ''abc'' \<and>
   decimal 0 (leading_digits ''abc'') < 2 ^ 64 \<and> Page (GetReviews_req list_bad_page) = 0 \<and>
   map_of (Query list_bad_page) ''limit'' = Some ''1x'' \<and> \<not> numeric ''1x'' \<and>
   decimal 0 (leading_digits ''1x'') < 2 ^ 64 \<and> Limit (GetReviews_req list_bad_page) = 0 \<and>
   DefaultQuery list_bad_page ''business_id'' '''' = '''' \<and>
   take 1 (GetReviews example_Handler list_bad_page) = [GetList_call (GetReviews_req list_bad_page)]"
proof -
  have e: "map_of (Query empty_Context) ''page'' = None" "map_of (Query empty_Context) ''limit'' = None"
    by (simp_all add: empty_Context_def)
  have p: "map_of (Query list_bad_page) ''page'' = Some ''abc''"
    "map_of (Query list_bad_page) ''limit'' = Some ''1x''"
    "DefaultQuery list_bad_page ''business_id'' '''' = ''''"
    by (simp_all add: list_bad_page_def empty_Context_def DefaultQuery_def)
  have n: "\<not> numeric ''abc''" "\<not> numeric ''1x''"
    by (simp_all add: numeric_def strip_sign_def is_digit_def)
  have d: "decimal 0 (leading_digits ''abc'') < 2 ^ 64" "decimal 0 (leading_digits ''1x'') < 2 ^ 64"
    by (simp_all add: leading_digits_def strip_sign_def is_digit_def digit_val_def)
  show ?thesis
    using GetReviews_page_limit [of empty_Context example_Handler]
      GetReviews_page_limit [of list_bad_page example_Handler] e p n d
    by blast
qed

text \<open>
  Claim C4. Every filter that \<open>GetReviews\<close> passes to the repository's \<^verbatim>\<open>GetList\<close> has
  exactly one order-by clause, column \<^verbatim>\<open>created_at\<close> with direction \<^verbatim>\<open>desc\<close>.
\<close>

theorem GetReviews_order_by:
  assumes "GetList_call f \<in> set (GetReviews h ctx)"
  shows "OrderBy f = [\<lparr>OrderBy_Column = ''created_at'', Order = ''desc''\<rparr>]"
proof -
  from assms have "f = GetReviews_req ctx"
    by (auto simp: GetReviews_def on_error_def Let_def split: if_splits prod.splits)
  then show ?thesis
    by (simp add: GetReviews_req_def zero_GetListFilter_def Let_def)
qed

text \<open>
  A request without query parameters reaches \<^verbatim>\<open>GetList\<close> with that ordering.
\<close>

theorem GetReviews_order_by_witness:
  "GetList_call (GetReviews_req empty_Context) \<in> set (GetReviews example_Handler empty_Context)
   \<and> OrderBy (GetReviews_req empty_Context) = [\<lparr>OrderBy_Column = ''created_at'', Order = ''desc''\<rparr>]"
proof -
  have r: "GetList_call (GetReviews_req empty_Context) \<in> set (GetReviews example_Handler empty_Context)"
    by (simp add: GetReviews_def DefaultQuery_def empty_Context_def example_Handler_def Let_def)
  show ?thesis using GetReviews_order_by [OF r] r by simp
qed

text \<open>
  Claim C5. Every review that \<open>CreateReview\<close> passes to the repository's \<^verbatim>\<open>Create\<close> has
  its \<open>UserID\<close> equal to the request header \<^verbatim>\<open>sub\<close>; and replacing the \<open>UserID\<close> that
  the JSON body decoded to by any other value \<open>u\<close> leaves every effect of the handler,
  the argument of \<^verbatim>\<open>Create\<close> included, unchanged.
\<close>

theorem CreateReview_user_from_header:
  "(\<forall>r. Create_call r \<in> set (CreateReview h ctx) \<longrightarrow> UserID r = GetHeader ctx ''sub'') \<and>
   CreateReview h (ctx\<lparr>Body := (fst (Body ctx)\<lparr>UserID := u\<rparr>, snd (Body ctx))\<rparr>) = CreateReview h ctx"
proof
  show "\<forall>r. Create_call r \<in> set (CreateReview h ctx) \<longrightarrow> UserID r = GetHeader ctx ''sub''"
    by (auto simp: CreateReview_def BindJSON_def on_error_def Let_def
             split: if_splits option.splits prod.splits)
next
  show "CreateReview h (ctx\<lparr>Body := (fst (Body ctx)\<lparr>UserID := u\<rparr>, snd (Body ctx))\<rparr>) = CreateReview h ctx"
    by (cases "Body ctx")
       (simp add: CreateReview_def BindJSON_def GetHeader_def Let_def split: option.splits)
qed

text \<open>
  A request from user \<open>u-1\<close> whose body names user \<open>u-2\<close>: \<^verbatim>\<open>Create\<close> receives \<open>u-1\<close>,
  and a body naming \<open>u-3\<close> leads to the same effects.
\<close>

theorem CreateReview_user_from_header_witness:
  "Create_call (zero_Review\<lparr>UserID := ''u-1'', BusinessID := ''b-1'', Rating := 5, Feedback := ''good''\<rparr>)
     \<in> set (CreateReview example_Handler create_request) \<and>
   GetHeader create_request ''sub'' = ''u-1'' \<and>
   UserID (zero_Review\<lparr>UserID := ''u-1'', BusinessID := ''b-1'', Rating := 5, Feedback := ''good''\<rparr>) = ''u-1'' \<and>
   CreateReview example_Handler
     (create_request\<lparr>Body := (fst (Body create_request)\<lparr>UserID := ''u-3''\<rparr>, snd (Body create_request))\<rparr>)
     = CreateReview example_Handler create_request"
proof -
  have c: "Create_call (zero_Review\<lparr>UserID := ''u-1'', BusinessID := ''b-1'', Rating := 5, Feedback := ''good''\<rparr>)
     \<in> set (CreateReview example_Handler create_request)"
    by (simp add: CreateReview_def BindJSON_def GetHeader_def on_error_def create_request_def
          empty_Context_def example_Handler_def Let_def)
  have g: "GetHeader create_request ''sub'' = ''u-1''"
    by (simp add: GetHeader_def create_request_def empty_Context_def)
  show ?thesis
    using CreateReview_user_from_header [of example_Handler create_request "''u-3''"] c g
    by simp
qed



text \<open>
  Claim C7. In \<open>SetReviewImage\<close>, when saving the uploaded file to its temporary path
  fails, the handler answers with status 500 and the error value itself as the body,
  and does nothing else. It is the only failure the handler answers with
  \<^verbatim>\<open>ctx.JSON\<close>: every response \<open>SetReviewImage\<close> writes with \<^verbatim>\<open>ctx.JSON\<close> is either
  the 200 with a review or this 500 with the raw error, so every other failure path
  goes through \<^verbatim>\<open>ReturnError\<close> or \<^verbatim>\<open>HandleDbError\<close>.
\<close>

theorem SetReviewImage_save_failure:
  "(Param ctx ''id'' \<noteq> '''' \<and> FormFile ctx ''file'' = Inr name \<and>
    SaveUploadedFile h name (''/tmp/'' @ name) = Some e \<longrightarrow>
      SetReviewImage h ctx =
        [SaveUploadedFile_call name (''/tmp/'' @ name), JSON 500 (Error_body e)]) \<and>
   (\<forall>status b. JSON status b \<in> set (SetReviewImage h ctx) \<longrightarrow>
      (status = 200 \<and> (\<exists>r. b = Review_body r)) \<or>
      (status = 500 \<and>
       (\<exists>file err. FormFile ctx ''file'' = Inr file \<and>
          SaveUploadedFile h file (''/tmp/'' @ file) = Some err \<and> b = Error_body err)))"
proof (intro conjI allI impI)
  assume "Param ctx ''id'' \<noteq> '''' \<and> FormFile ctx ''file'' = Inr name \<and>
    SaveUploadedFile h name (''/tmp/'' @ name) = Some e"
  then show "SetReviewImage h ctx =
        [SaveUploadedFile_call name (''/tmp/'' @ name), JSON 500 (Error_body e)]"
    by (simp add: SetReviewImage_def Let_def)
next
  fix status b
  assume "JSON status b \<in> set (SetReviewImage h ctx)"
  then show "(status = 200 \<and> (\<exists>r. b = Review_body r)) \<or>
      (status = 500 \<and>
       (\<exists>file err. FormFile ctx ''file'' = Inr file \<and>
          SaveUploadedFile h file (''/tmp/'' @ file) = Some err \<and> b = Error_body err))"
    by (auto simp: SetReviewImage_def on_error_def Let_def
             split: if_splits sum.splits option.splits prod.splits)
qed

text \<open>
  An upload on a machine whose temporary directory cannot be written.
\<close>

theorem SetReviewImage_save_failure_witness:
  "Param image_request ''id'' = ''r-1'' \<and> FormFile image_request ''file'' = Inr ''cat.png'' \<and>
   SaveUploadedFile readonly_tmp_Handler ''cat.png'' ''/tmp/cat.png'' =
     Some (Err ''open /tmp/cat.png: read-only file system'') \<and>
   SetReviewImage readonly_tmp_Handler image_request =
     [SaveUploadedFile_call ''cat.png'' ''/tmp/cat.png'',
      JSON 500 (Error_body (Err ''open /tmp/cat.png: read-only file system''))] \<and>
   JSON 500 (Error_body (Err ''open /tmp/cat.png: read-only file system''))
     \<in> set (SetReviewImage readonly_tmp_Handler image_request)"
proof -
  have p: "Param image_request ''id'' = ''r-1''"
    by (simp add: Param_def image_request_def empty_Context_def)
  have f: "FormFile image_request ''file'' = Inr ''cat.png''"
    by (simp add: FormFile_def image_request_def empty_Context_def)
  have s: "SaveUploadedFile readonly_tmp_Handler ''cat.png'' ''/tmp/cat.png'' =
     Some (Err ''open /tmp/cat.png: read-only file system'')"
    by (simp add: readonly_tmp_Handler_def example_Handler_def)
  show ?thesis
    using SetReviewImage_save_failure [of image_request "''cat.png''" readonly_tmp_Handler
        "Err ''open /tmp/cat.png: read-only file system''"] p f s
    by simp
qed

text \<open>
  Claim C8. With the error mapper, the review store and the object storage of the spec:
  whenever \<open>SetReviewImage\<close> answers 200, the request carried a file, the storage was
  available and the review existed; the file was uploaded under the key
  \<^verbatim>\<open>uuid.New().String() + "-" + file.Filename\<close>; the body of the response is the
  updated review, whose \<open>Photos\<close> is the URL of that key, the address of the storage
  followed by the UUID, a hyphen and the filename; and the review stored afterwards is
  that same review, whatever was stored before: the \<open>Photos\<close> of an earlier upload is
  replaced by the new URL, not extended.
\<close>

theorem SetReviewImage_success_photos:
  assumes "JSON 200 b \<in> set (SetReviewImage (with_spec h db storage) ctx)"
  shows "\<exists>name address old.
           FormFile ctx ''file'' = Inr name \<and> storage = Some address \<and>
           db (Param ctx ''id'') = Some old \<and>
           Upload_call (uuid_New h @ ''-'' @ name) (''/tmp/'' @ name)
             \<in> set (SetReviewImage (with_spec h db storage) ctx) \<and>
           b = Review_body (zero_Review\<lparr>ID := Param ctx ''id'',
                 Photos := address @ uuid_New h @ ''-'' @ name\<rparr>) \<and>
           stored_after db (SetReviewImage (with_spec h db storage) ctx) (Param ctx ''id'') =
             Some (zero_Review\<lparr>ID := Param ctx ''id'',
                 Photos := address @ uuid_New h @ ''-'' @ name\<rparr>)"
proof -
  from SetReviewImage_success [OF assms] obtain name where
    f: "FormFile ctx ''file'' = Inr name"
    and run: "SetReviewImage (with_spec h db storage) ctx =
             [SaveUploadedFile_call name (''/tmp/'' @ name),
              Upload_call (uuid_New h @ ''-'' @ name) (''/tmp/'' @ name),
              HandleDbError_call (snd (Upload_spec storage (uuid_New h @ ''-'' @ name) (''/tmp/'' @ name)))
                ''Error uploading review image'',
              Update_call (zero_Review\<lparr>ID := Param ctx ''id'',
                 Photos := fst (Upload_spec storage (uuid_New h @ ''-'' @ name) (''/tmp/'' @ name))\<rparr>),
              HandleDbError_call
                (snd (Update_answer db (zero_Review\<lparr>ID := Param ctx ''id'',
                   Photos := fst (Upload_spec storage (uuid_New h @ ''-'' @ name) (''/tmp/'' @ name))\<rparr>)))
                ''Error updating review image'',
              JSON 200 b]"
    and b: "b = Review_body (fst (Update_answer db (zero_Review\<lparr>ID := Param ctx ''id'',
                   Photos := fst (Upload_spec storage (uuid_New h @ ''-'' @ name) (''/tmp/'' @ name))\<rparr>)))"
    unfolding with_spec_fields by blast
  let ?key = "uuid_New h @ ''-'' @ name"
  have "storage \<noteq> None"
  proof
    assume "storage = None"
    then have "SetReviewImage (with_spec h db storage) ctx =
             [SaveUploadedFile_call name (''/tmp/'' @ name),
              Upload_call ?key (''/tmp/'' @ name),
              HandleDbError_call (Some (Err ''StorageError'')) ''Error uploading review image'']"
      using assms f
      by (auto simp: SetReviewImage_def on_error_def Let_def with_spec_fields Upload_spec_def
            HandleDbError_spec_def split: if_splits option.splits)
    with assms show False by simp
  qed
  then obtain address where a: "storage = Some address" by blast
  then have url: "fst (Upload_spec storage ?key (''/tmp/'' @ name)) = address @ ?key"
    by (simp add: Upload_spec_def)
  let ?r = "zero_Review\<lparr>ID := Param ctx ''id'', Photos := address @ ?key\<rparr>"
  have "Param ctx ''id'' \<in> dom db"
  proof (rule ccontr)
    assume n: "Param ctx ''id'' \<notin> dom db"
    have "SetReviewImage (with_spec h db storage) ctx =
             [SaveUploadedFile_call name (''/tmp/'' @ name),
              Upload_call ?key (''/tmp/'' @ name),
              HandleDbError_call None ''Error uploading review image'',
              Update_call ?r,
              HandleDbError_call (Some (Err ''NotFound'')) ''Error updating review image'']"
      using assms f a n
      by (auto simp: SetReviewImage_def on_error_def Let_def with_spec_fields Upload_spec_def
            Update_answer_def HandleDbError_spec_def split: if_splits option.splits)
    with assms show False by simp
  qed
  then obtain old where o: "db (Param ctx ''id'') = Some old" by blast
  then have ans: "Update_answer db ?r = (?r, None)" by (auto simp: Update_answer_def)
  have b': "b = Review_body ?r" using b unfolding url ans by simp
  have u: "Update_call ?r \<in> set (SetReviewImage (with_spec h db storage) ctx)"
    unfolding run url by simp
  have up: "Upload_call ?key (''/tmp/'' @ name) \<in> set (SetReviewImage (with_spec h db storage) ctx)"
    unfolding run by simp
  have "db (ID ?r) = Some old" using o by simp
  from stored_after_SetReviewImage [where db = db and old = old, OF u this]
  have st: "stored_after db (SetReviewImage (with_spec h db storage) ctx) (Param ctx ''id'') = Some ?r"
    by simp
  show ?thesis using f a o up b' st by blast
qed

text \<open>
  Two uploads for the stored review \<open>r-1\<close>, \<open>cat.png\<close> and then \<open>dog.png\<close>, each run with
  the UUID it drew: after the first the stored \<open>Photos\<close> is the URL of \<open>cat.png\<close>, and
  the second answers with, and leaves stored, the URL of \<open>dog.png\<close> alone.
\<close>

theorem SetReviewImage_success_photos_witness:
  "stored_after [''r-1'' \<mapsto> stored_review]
     (SetReviewImage (with_spec example_Handler [''r-1'' \<mapsto> stored_review]
        (Some ''http://minio:9000/reviews/'')) image_request) =
     [''r-1'' \<mapsto> zero_Review\<lparr>ID := ''r-1'',
        Photos := ''http://minio:9000/reviews/123e4567-e89b-12d3-a456-426614174000-cat.png''\<rparr>] \<and>
   JSON 200 (Review_body (zero_Review\<lparr>ID := ''r-1'',
        Photos := ''http://minio:9000/reviews/9c5b94b1-35ad-49bb-b118-8e8fc24abf80-dog.png''\<rparr>))
     \<in> set (SetReviewImage
          (with_spec second_Handler
             [''r-1'' \<mapsto> zero_Review\<lparr>ID := ''r-1'',
                Photos := ''http://minio:9000/reviews/123e4567-e89b-12d3-a456-426614174000-cat.png''\<rparr>]
             (Some ''http://minio:9000/reviews/''))
          second_image_request) \<and>
   FormFile second_image_request ''file'' = Inr ''dog.png'' \<and>
   stored_after
     [''r-1'' \<mapsto> zero_Review\<lparr>ID := ''r-1'',
        Photos := ''http://minio:9000/reviews/123e4567-e89b-12d3-a456-426614174000-cat.png''\<rparr>]
     (SetReviewImage
        (with_spec second_Handler
           [''r-1'' \<mapsto> zero_Review\<lparr>ID := ''r-1'',
              Photos := ''http://minio:9000/reviews/123e4567-e89b-12d3-a456-426614174000-cat.png''\<rparr>]
           (Some ''http://minio:9000/reviews/''))
        second_image_request) ''r-1'' =
     Some (zero_Review\<lparr>ID := ''r-1'',
        Photos := ''http://minio:9000/reviews/9c5b94b1-35ad-49bb-b118-8e8fc24abf80-dog.png''\<rparr>)"
proof -
  let ?db1 = "[''r-1'' \<mapsto> zero_Review\<lparr>ID := ''r-1'',
        Photos := ''http://minio:9000/reviews/123e4567-e89b-12d3-a456-426614174000-cat.png''\<rparr>]"
  let ?run2 = "SetReviewImage (with_spec second_Handler ?db1 (Some ''http://minio:9000/reviews/''))
        second_image_request"
  have ok: "JSON 200 (Review_body (zero_Review\<lparr>ID := ''r-1'',
        Photos := ''http://minio:9000/reviews/9c5b94b1-35ad-49bb-b118-8e8fc24abf80-dog.png''\<rparr>))
     \<in> set ?run2"
    by (simp add: spec_second_image_run)
  have f: "FormFile second_image_request ''file'' = Inr ''dog.png''"
    by (simp add: FormFile_def second_image_request_def empty_Context_def)
  have p: "Param second_image_request ''id'' = ''r-1''"
    by (simp add: Param_def second_image_request_def empty_Context_def)
  have n: "uuid_New second_Handler = ''9c5b94b1-35ad-49bb-b118-8e8fc24abf80''"
    by (simp add: second_Handler_def example_Handler_def)
  from SetReviewImage_success_photos [OF ok] obtain name address where
    f': "FormFile second_image_request ''file'' = Inr name"
    and a: "Some ''http://minio:9000/reviews/'' = Some address"
    and st: "stored_after ?db1 ?run2 (Param second_image_request ''id'') =
             Some (zero_Review\<lparr>ID := Param second_image_request ''id'',
                 Photos := address @ uuid_New second_Handler @ ''-'' @ name\<rparr>)"
    by blast
  from f f' have name: "name = ''dog.png''" by simp
  from a have address: "address = ''http://minio:9000/reviews/''" by simp
  have second: "stored_after ?db1 ?run2 ''r-1'' =
     Some (zero_Review\<lparr>ID := ''r-1'',
        Photos := ''http://minio:9000/reviews/9c5b94b1-35ad-49bb-b118-8e8fc24abf80-dog.png''\<rparr>)"
    using st unfolding name address p n by simp
  show ?thesis
    by (intro conjI spec_stored_after_first ok f second)
qed

text \<open>
  Claim C9. \<open>GetReview\<close> and \<open>DeleteReview\<close> begin with the repository call on the path
  identifier as it is, whatever string it is. \<open>SetReviewImage\<close> rejects the empty
  identifier, passes any other identifier unchanged in the review it sends to
  \<^verbatim>\<open>Update\<close>, and checks nothing else about it: two requests with non-empty
  identifiers and the same files have the same effects up to the \<^verbatim>\<open>Update\<close> call, and
  reach that call or not together.
\<close>

theorem path_id_passed_unchanged:
  "take 1 (GetReview h ctx) = [GetSingle_call \<lparr>Id_ID = Param ctx ''id''\<rparr>] \<and>
   take 1 (DeleteReview h ctx) = [Delete_call \<lparr>Id_ID = Param ctx ''id''\<rparr>] \<and>
   (Param ctx ''id'' = '''' \<longrightarrow>
      SetReviewImage h ctx = [ReturnError (ErrorBadRequest h) ''Review ID is required in path'' 400]) \<and>
   (\<forall>r. Update_call r \<in> set (SetReviewImage h ctx) \<longrightarrow> ID r = Param ctx ''id'') \<and>
   (Param ctx ''id'' \<noteq> '''' \<and> Param ctx' ''id'' \<noteq> '''' \<and> Files ctx' = Files ctx \<longrightarrow>
      takeWhile (\<lambda>x. \<not> is_Update_call x) (SetReviewImage h ctx') =
        takeWhile (\<lambda>x. \<not> is_Update_call x) (SetReviewImage h ctx) \<and>
      list_ex is_Update_call (SetReviewImage h ctx') = list_ex is_Update_call (SetReviewImage h ctx))"
proof (intro conjI allI impI)
  show "take 1 (GetReview h ctx) = [GetSingle_call \<lparr>Id_ID = Param ctx ''id''\<rparr>]"
    by (simp add: GetReview_def Let_def split: prod.splits)
  show "take 1 (DeleteReview h ctx) = [Delete_call \<lparr>Id_ID = Param ctx ''id''\<rparr>]"
    by (simp add: DeleteReview_def Let_def)
next
  assume "Param ctx ''id'' = ''''"
  then show "SetReviewImage h ctx = [ReturnError (ErrorBadRequest h) ''Review ID is required in path'' 400]"
    by (simp add: SetReviewImage_def)
next
  fix r
  assume "Update_call r \<in> set (SetReviewImage h ctx)"
  from Update_call_in_SetReviewImage [OF this] show "ID r = Param ctx ''id''" by auto
next
  assume a: "Param ctx ''id'' \<noteq> '''' \<and> Param ctx' ''id'' \<noteq> '''' \<and> Files ctx' = Files ctx"
  then have f: "FormFile ctx' ''file'' = FormFile ctx ''file''" by (simp add: FormFile_def)
  show "takeWhile (\<lambda>x. \<not> is_Update_call x) (SetReviewImage h ctx') =
        takeWhile (\<lambda>x. \<not> is_Update_call x) (SetReviewImage h ctx)"
    using a f
    by (simp add: SetReviewImage_def on_error_def Let_def
          split: sum.splits option.splits prod.splits)
  show "list_ex is_Update_call (SetReviewImage h ctx') = list_ex is_Update_call (SetReviewImage h ctx)"
    using a f
    by (simp add: SetReviewImage_def on_error_def Let_def
          split: sum.splits option.splits prod.splits)
qed

text \<open>
  The identifier \<^verbatim>\<open>not a uuid!\<close> reaches \<^verbatim>\<open>GetSingle\<close>, \<^verbatim>\<open>Delete\<close> and \<^verbatim>\<open>Update\<close> as
  it is, and the upload under it runs as the upload under \<open>r-1\<close> does.
\<close>

theorem path_id_passed_unchanged_witness:
  "take 1 (GetReview example_Handler odd_id_image_request) =
     [GetSingle_call \<lparr>Id_ID = ''not a uuid!''\<rparr>] \<and>
   take 1 (DeleteReview example_Handler odd_id_image_request) =
     [Delete_call \<lparr>Id_ID = ''not a uuid!''\<rparr>] \<and>
   Param empty_Context ''id'' = '''' \<and>
   SetReviewImage example_Handler empty_Context =
     [ReturnError ''BAD_REQUEST'' ''Review ID is required in path'' 400] \<and>
   Update_call (zero_Review\<lparr>ID := ''not a uuid!'',
        Photos := ''http://minio:9000/reviews/123e4567-e89b-12d3-a456-426614174000-cat.png''\<rparr>)
     \<in> set (SetReviewImage example_Handler odd_id_image_request) \<and>
   ID (zero_Review\<lparr>ID := ''not a uuid!'',
        Photos := ''http://minio:9000/reviews/123e4567-e89b-12d3-a456-426614174000-cat.png''\<rparr>) =
     Param odd_id_image_request ''id'' \<and>
   Param odd_id_image_request ''id'' = ''not a uuid!'' \<and>
   Param image_request ''id'' = ''r-1'' \<and>
   Files odd_id_image_request = Files image_request \<and>
   takeWhile (\<lambda>x. \<not> is_Update_call x) (SetReviewImage example_Handler odd_id_image_request) =
     takeWhile (\<lambda>x. \<not> is_Update_call x) (SetReviewImage example_Handler image_request) \<and>
   list_ex is_Update_call (SetReviewImage example_Handler odd_id_image_request)"
proof -
  have p1: "Param odd_id_image_request ''id'' = ''not a uuid!''"
    and p2: "Param image_request ''id'' = ''r-1''"
    and p3: "Param empty_Context ''id'' = ''''"
    by (simp_all add: Param_def odd_id_image_request_def image_request_def empty_Context_def)
  have f: "Files odd_id_image_request = Files image_request"
    by (simp add: odd_id_image_request_def)
  have eb: "ErrorBadRequest example_Handler = ''BAD_REQUEST''"
    by (simp add: example_Handler_def)
  have u: "Update_call (zero_Review\<lparr>ID := ''not a uuid!'',
        Photos := ''http://minio:9000/reviews/123e4567-e89b-12d3-a456-426614174000-cat.png''\<rparr>)
     \<in> set (SetReviewImage example_Handler odd_id_image_request)"
    by (simp add: example_odd_id_image_run)
  have i: "ID (zero_Review\<lparr>ID := ''not a uuid!'',
        Photos := ''http://minio:9000/reviews/123e4567-e89b-12d3-a456-426614174000-cat.png''\<rparr>) =
     Param odd_id_image_request ''id''"
    using path_id_passed_unchanged [of example_Handler odd_id_image_request] u by blast
  have ex: "list_ex is_Update_call (SetReviewImage example_Handler image_request)"
    by (simp add: example_image_run)
  have g: "take 1 (GetReview example_Handler odd_id_image_request) =
     [GetSingle_call \<lparr>Id_ID = ''not a uuid!''\<rparr>]"
    and d: "take 1 (DeleteReview example_Handler odd_id_image_request) =
     [Delete_call \<lparr>Id_ID = ''not a uuid!''\<rparr>]"
    using path_id_passed_unchanged [of example_Handler odd_id_image_request] unfolding p1
    by blast+
  have e: "SetReviewImage example_Handler empty_Context =
     [ReturnError ''BAD_REQUEST'' ''Review ID is required in path'' 400]"
    using path_id_passed_unchanged [of example_Handler empty_Context] p3 unfolding eb
    by blast
  have "Param image_request ''id'' \<noteq> '''' \<and> Param odd_id_image_request ''id'' \<noteq> '''' \<and>
        Files odd_id_image_request = Files image_request"
    using p1 p2 f by simp
  with path_id_passed_unchanged [of example_Handler image_request odd_id_image_request]
  have t: "takeWhile (\<lambda>x. \<not> is_Update_call x) (SetReviewImage example_Handler odd_id_image_request) =
     takeWhile (\<lambda>x. \<not> is_Update_call x) (SetReviewImage example_Handler image_request)"
    and l: "list_ex is_Update_call (SetReviewImage example_Handler odd_id_image_request) =
      list_ex is_Update_call (SetReviewImage example_Handler image_request)"
    by blast+
  from l ex have l': "list_ex is_Update_call (SetReviewImage example_Handler odd_id_image_request)"
    by blast
  show ?thesis
    by (intro conjI g d p1 p2 p3 e u i f t l')
qed

text \<open>
  Claim C10. Every review that \<open>SetReviewImage\<close> passes to the repository's \<^verbatim>\<open>Update\<close>
  has the zero value in every field other than \<open>ID\<close> and \<open>Photos\<close>, and its \<open>ID\<close> is the
  path identifier. The handler never calls \<^verbatim>\<open>GetSingle\<close>. Under the full-record
  replace of the spec, the review stored under that identifier afterwards is this
  review, so the other fields of the stored review are overwritten with zero values.
\<close>

theorem SetReviewImage_passes_zero_fields:
  assumes "Update_call r \<in> set (SetReviewImage h ctx)"
  shows "UserID r = '''' \<and> BusinessID r = '''' \<and> Rating r = 0 \<and> Feedback r = '''' \<and>
         CreatedAt r = '''' \<and> ID r = Param ctx ''id'' \<and>
         (\<forall>i. GetSingle_call i \<notin> set (SetReviewImage h ctx)) \<and>
         (\<forall>db old. db (ID r) = Some old \<longrightarrow>
            stored_after db (SetReviewImage h ctx) (ID r) = Some r)"
proof -
  from Update_call_in_SetReviewImage [OF assms] obtain name rest where
    r: "r = zero_Review\<lparr>ID := Param ctx ''id'',
                 Photos := fst (MinIO_Upload h (uuid_New h @ ''-'' @ name) (''/tmp/'' @ name))\<rparr>"
    and run: "SetReviewImage h ctx =
             [SaveUploadedFile_call name (''/tmp/'' @ name),
              Upload_call (uuid_New h @ ''-'' @ name) (''/tmp/'' @ name),
              HandleDbError_call (snd (MinIO_Upload h (uuid_New h @ ''-'' @ name) (''/tmp/'' @ name)))
                ''Error uploading review image'',
              Update_call r] @ rest"
    and rest: "\<forall>x \<in> set rest. \<not> ReviewRepo_call x"
    by blast
  have fields: "UserID r = '''' \<and> BusinessID r = '''' \<and> Rating r = 0 \<and> Feedback r = '''' \<and>
         CreatedAt r = '''' \<and> ID r = Param ctx ''id''"
    by (simp add: r zero_Review_def)
  have nofetch: "GetSingle_call i \<notin> set (SetReviewImage h ctx)" for i
    using rest by (auto simp: run)
  have st: "stored_after db (SetReviewImage h ctx) (ID r) = Some r" if "db (ID r) = Some old" for db old
    using stored_after_SetReviewImage [where db = db and old = old, OF assms that] by simp
  show ?thesis using fields nofetch st by blast
qed

text \<open>
  An upload for the stored review \<open>r-1\<close>, whose user, business, rating, feedback and
  creation time are set before the run and zero after it.
\<close>

theorem SetReviewImage_passes_zero_fields_witness:
  "Update_call (zero_Review\<lparr>ID := ''r-1'',
        Photos := ''http://minio:9000/reviews/123e4567-e89b-12d3-a456-426614174000-cat.png''\<rparr>)
     \<in> set (SetReviewImage example_Handler image_request) \<and>
   [''r-1'' \<mapsto> stored_review] ''r-1'' = Some stored_review \<and>
   UserID stored_review = ''u-1'' \<and> Rating stored_review = 4 \<and>
   stored_after [''r-1'' \<mapsto> stored_review] (SetReviewImage example_Handler image_request) ''r-1'' =
     Some \<lparr>ID = ''r-1'', UserID = '''', BusinessID = '''', Rating = 0, Feedback = '''',
           Photos = ''http://minio:9000/reviews/123e4567-e89b-12d3-a456-426614174000-cat.png'',
           CreatedAt = ''''\<rparr>"
proof -
  let ?r = "zero_Review\<lparr>ID := ''r-1'',
        Photos := ''http://minio:9000/reviews/123e4567-e89b-12d3-a456-426614174000-cat.png''\<rparr>"
  have u: "Update_call ?r \<in> set (SetReviewImage example_Handler image_request)"
    by (simp add: example_image_run)
  have id: "ID ?r = ''r-1''" by simp
  have old: "[''r-1'' \<mapsto> stored_review] (ID ?r) = Some stored_review" by simp
  from SetReviewImage_passes_zero_fields [OF u] old
  have "stored_after [''r-1'' \<mapsto> stored_review] (SetReviewImage example_Handler image_request) (ID ?r) = Some ?r"
    by blast
  then show ?thesis using u by (simp add: zero_Review_def stored_review_def)
qed

end
